theory Spec2Isabelle
  imports Main
begin

section \<open>The DERP relay inbound of sing-box (protocol/tailscale)\<close>

text \<open>
  A shallow embedding of the DERP inbound: its constructor \<open>NewDERPInbound\<close>, the two
  stages of \<open>DERPInbound.Start\<close>, the mesh key check, the key store
  (\<open>readDERPConfig\<close>, \<open>writeNewDERPConfig\<close>), the home page handler, the WebSocket
  upgrade handler and the STUN loop. Go strings are byte strings, here \<open>string\<close>. A Go \<open>error\<close>
  return is an \<open>error option\<close> (\<open>None\<close> is \<open>nil\<close>) or the left side of a sum.
\<close>

subsection \<open>Errors\<close>

text \<open>
  \<open>ENOENT\<close> is the system error for which \<open>os.IsNotExist\<close> answers true; \<open>IOErr\<close> stands
  for the other system errors of a file operation (permission, is a directory, I/O);
  \<open>New\<close> is \<open>E.New\<close> with its arguments joined, \<open>Cause e m\<close> is \<open>E.Cause(e, m)\<close>;
  \<open>Ext\<close> is an error returned by a collaborator outside this package; \<open>Panic\<close> is a
  run-time panic (a nil pointer dereference).
\<close>

datatype error =
    ENOENT
  | IOErr string
  | New string
  | Cause error string
  | Ext string
  | Panic string

definition os_IsNotExist :: "error \<Rightarrow> bool" where
  "os_IsNotExist err = (err = ENOENT)"

subsection \<open>The regular expression of the mesh key check\<close>

text \<open>
  The part of Go's \<open>regexp\<close> syntax that the pattern \<^verbatim>\<open>^[0-9a-f]{64}$\<close> uses: the two
  text anchors (without the \<open>m\<close> flag, \<open>^\<close> is the beginning and \<open>$\<close> the very end of
  the text), a character class of ranges, a counted repetition and concatenation.
  \<open>rmatch r s i\<close> lists the positions at which a match of \<open>r\<close> that starts at position
  \<open>i\<close> of \<open>s\<close> can end. The class has ASCII ranges only, so matching bytes is matching
  runes: a byte of a multi-byte or invalid rune is in no range.
\<close>

datatype regex =
    BeginText
  | EndText
  | CharClass "(char \<times> char) list"
  | Repeat nat regex
  | Seq regex regex

definition in_class :: "(char \<times> char) list \<Rightarrow> char \<Rightarrow> bool" where
  "in_class rs c =
     list_ex (\<lambda>(lo, hi). (of_char lo :: nat) \<le> of_char c \<and> (of_char c :: nat) \<le> of_char hi) rs"

fun rsize :: "regex \<Rightarrow> nat" where
  "rsize (Repeat n r) = Suc (n + rsize r)"
| "rsize (Seq r1 r2) = Suc (rsize r1 + rsize r2)"
| "rsize _ = 0"

function rmatch :: "regex \<Rightarrow> string \<Rightarrow> nat \<Rightarrow> nat list" where
  "rmatch BeginText s i = (if i = 0 then [i] else [])"
| "rmatch EndText s i = (if i = length s then [i] else [])"
| "rmatch (CharClass rs) s i = (if i < length s \<and> in_class rs (s ! i) then [Suc i] else [])"
| "rmatch (Repeat 0 r) s i = [i]"
| "rmatch (Repeat (Suc n) r) s i = concat (map (rmatch (Repeat n r) s) (rmatch r s i))"
| "rmatch (Seq r1 r2) s i = concat (map (rmatch r2 s) (rmatch r1 s i))"
  by pat_completeness auto
termination
  by (relation "measure (\<lambda>(r, s, i). rsize r)") auto

text \<open>\<open>Regexp.MatchString\<close> searches: it reports whether a match starts anywhere.\<close>

definition regexp_MatchString :: "regex \<Rightarrow> string \<Rightarrow> bool" where
  "regexp_MatchString re s = list_ex (\<lambda>i. rmatch re s i \<noteq> []) [0 ..< Suc (length s)]"

text \<open>
  \<open>regexp.Compile\<close> of the constant pattern \<^verbatim>\<open>^[0-9a-f]{64}$\<close>: the pattern is well
  formed, so the compilation yields the expression and no error.
\<close>

definition meshKeyPattern :: regex where
  "meshKeyPattern =
     Seq BeginText
       (Seq (Repeat 64 (CharClass [(CHR ''0'', CHR ''9''), (CHR ''a'', CHR ''f'')])) EndText)"

definition regexp_Compile_meshKeyPattern :: "error + regex" where
  "regexp_Compile_meshKeyPattern = Inr meshKeyPattern"

definition checkMeshKey :: "string \<Rightarrow> error option" where
  "checkMeshKey meshKey =
     (case regexp_Compile_meshKeyPattern of
        Inl err \<Rightarrow> Some err
      | Inr checkRegex \<Rightarrow>
          if \<not> regexp_MatchString checkRegex meshKey
          then Some (New ''key must contain exactly 64 hex digits'')
          else None)"

text \<open>The spec's words: a lowercase hexadecimal digit.\<close>

definition lowercase_hex :: "char \<Rightarrow> bool" where
  "lowercase_hex c = (c \<in> set ''0123456789abcdef'')"

subsection \<open>Strings and HTTP headers\<close>

definition strings_HasPrefix :: "string \<Rightarrow> string \<Rightarrow> bool" where
  "strings_HasPrefix s pre = (length pre \<le> length s \<and> take (length pre) s = pre)"









subsection \<open>The WebSocket upgrade handler\<close>





subsection \<open>The home page handler\<close>

definition homePage :: string where
  \<open>homePage = CHR 0x0A # concat (map (\<lambda>l. l @ [CHR 0x0A])
     [''<h1>DERP</h1>'',
      ''<p>'',
      ''  This is a <a href="https://tailscale.com/">Tailscale</a> DERP server.'',
      ''</p>'',
      [],
      ''<p>'',
      ''  It provides STUN, interactive connectivity establishment, and relaying of end-to-end encrypted traffic'',
      ''  for Tailscale clients.'',
      ''</p>'',
      [],
      ''<p>'',
      ''  Documentation:'',
      ''</p>'',
      [],
      ''<ul>'',
      [],
      ''<li><a href="https://tailscale.com/kb/1232/derp-servers">About DERP</a></li>'',
      ''<li><a href="https://pkg.go.dev/tailscale.com/derp">Protocol & Go docs</a></li>'',
      ''<li><a href="https://github.com/tailscale/tailscale/tree/main/cmd/derper#derp">How to run a DERP server</a></li>'',
      [],
      ''</body>'',
      ''</html>''])\<close>

text \<open>
  A handler function of this package is given by what it writes: the header fields it
  sets, the status it passes to \<open>WriteHeader\<close> and the body. \<open>RedirectHandler url code\<close> is
  the value of \<open>http.RedirectHandler(url, code)\<close>.
\<close>

record response =
  respHeader :: "(string \<times> string) list"
  respStatus :: nat
  respBody :: string

datatype handler =
    HandlerFunc response
  | RedirectHandler string nat

definition http_StatusFound :: nat where
  "http_StatusFound = 302"

definition getHomeHandler :: "string \<Rightarrow> handler option \<times> bool" where
  "getHomeHandler val =
     (if val = [] then
        (Some (HandlerFunc \<lparr>respHeader = [(''Content-Type'', ''text/html; charset=utf-8'')],
                            respStatus = 200, respBody = homePage\<rparr>), True)
      else if val = ''blank'' then
        (Some (HandlerFunc \<lparr>respHeader = [(''Content-Type'', ''text/html; charset=utf-8'')],
                            respStatus = 200, respBody = []\<rparr>), True)
      else if strings_HasPrefix val ''http://'' \<or> strings_HasPrefix val ''https://'' then
        (Some (RedirectHandler val http_StatusFound), True)
      else (None, False))"

subsection \<open>Files, goroutines and the world\<close>

text \<open>
  A node private key (\<open>key.NodePrivate\<close>) is its key bytes. \<open>derpConfig\<close> is the struct
  of that name.
\<close>

type_synonym nodePrivate = string

record derpConfig =
  PrivateKey :: nodePrivate

text \<open>
  A path of the file system holds nothing, a regular file with its content, or an entry
  whose read fails with a system error other than "does not exist" (a directory, a file
  without read permission).
\<close>

datatype node =
    File string
  | Unreadable string

record OutboundTLSOptions =
  outbound_Enabled :: bool
  outbound_ServerName :: string
  outbound_CertificatePath :: string

type_synonym DialerOptions = string
type_synonym tlsClientConfig = string
type_synonym stdConfig = string

text \<open>
  \<open>option.DERPMeshOptions\<close>: \<open>Server\<close> and \<open>ServerPort\<close> are the embedded
  \<open>ServerOptions\<close>, \<open>mesh_DialerOptions\<close> the embedded \<open>DialerOptions\<close>, \<open>mesh_TLS\<close> the
  pointer \<open>TLS\<close> of the embedded \<open>OutboundTLSOptionsContainer\<close> (\<open>None\<close> is \<open>nil\<close>).
\<close>

record DERPMeshOptions =
  Server :: string
  ServerPort :: nat
  mesh_DialerOptions :: DialerOptions
  mesh_TLS :: "OutboundTLSOptions option"
  Hostname :: string

text \<open>The fields of \<open>derphttp.Client\<close> that \<open>startMeshWithHost\<close> sets.\<close>

record meshClient =
  client_privateKey :: nodePrivate
  client_url :: string
  client_TLSConfig :: "stdConfig option"
  client_MeshKey :: string
  client_WatchConnectionChanges :: bool
  client_dialer :: DialerOptions

text \<open>The routes that \<open>Start\<close> mounts on the HTTP multiplexer.\<close>

datatype route =
    DerpWithWebSocketSupport
  | ProbeHandler
  | BootstrapDNS
  | BrowserHeadersThen "handler option"
  | RobotsTxt
  | ServeNoContent

text \<open>
  The effects on the outside: file operations, sockets bound, and the goroutines
  started with \<open>go\<close>, in the order in which they happen.
\<close>

datatype event =
    EvReadFile string
  | EvMkdirAll string
  | EvWriteFile string string
  | EvTLSStart
  | EvListenTCP
  | EvGoServe "(string \<times> route) list" "string list"
  | EvListenUDP
  | EvGoLoopSTUN
  | EvGoRunWatchConnectionLoop meshClient

record world =
  files :: "string \<rightharpoonup> node"
  trace :: "event list"

definition emit :: "event \<Rightarrow> world \<Rightarrow> world" where
  "emit e w = w\<lparr>trace := trace w @ [e]\<rparr>"

text \<open>The events that happened between the world \<open>w\<close> and the later world \<open>w'\<close>.\<close>

definition emitted :: "world \<Rightarrow> world \<Rightarrow> event list" where
  "emitted w w' = drop (length (trace w)) (trace w')"

fun isReadFile :: "event \<Rightarrow> bool" where
  "isReadFile (EvReadFile p) = True"
| "isReadFile _ = False"

fun isWrite :: "event \<Rightarrow> bool" where
  "isWrite (EvWriteFile p c) = True"
| "isWrite (EvMkdirAll p) = True"
| "isWrite _ = False"

fun isWatchLoop :: "event \<Rightarrow> bool" where
  "isWatchLoop (EvGoRunWatchConnectionLoop c) = True"
| "isWatchLoop _ = False"

definition os_ReadFile :: "string \<Rightarrow> world \<Rightarrow> (error + string) \<times> world" where
  "os_ReadFile path w =
     (case files w path of
        None \<Rightarrow> Inl ENOENT
      | Some (File content) \<Rightarrow> Inr content
      | Some (Unreadable msg) \<Rightarrow> Inl (IOErr msg),
      emit (EvReadFile path) w)"

subsection \<open>The key store\<close>

text \<open>
  What the key store takes from outside this package: the random key of \<open>key.NewNode\<close>,
  the JSON encoding of \<open>derpConfig\<close> (\<open>encoding/json\<close> with the text encoding of
  \<open>key.NodePrivate\<close>), \<open>filepath.Dir\<close>, and whether \<open>os.MkdirAll\<close> and \<open>os.WriteFile\<close> fail
  at a path.
\<close>

record keystore =
  key_NewNode :: nodePrivate
  json_Marshal :: "derpConfig \<Rightarrow> error + string"
  json_Unmarshal :: "string \<Rightarrow> error + derpConfig"
  filepath_Dir :: "string \<Rightarrow> string"
  mkdirAll_error :: "string \<Rightarrow> error option"
  writeFile_error :: "string \<Rightarrow> error option"

definition os_MkdirAll :: "keystore \<Rightarrow> string \<Rightarrow> world \<Rightarrow> error option \<times> world" where
  "os_MkdirAll K dir w =
     (case mkdirAll_error K dir of
        Some err \<Rightarrow> (Some err, w)
      | None \<Rightarrow> (None, emit (EvMkdirAll dir) w))"

definition os_WriteFile :: "keystore \<Rightarrow> string \<Rightarrow> string \<Rightarrow> world \<Rightarrow> error option \<times> world" where
  "os_WriteFile K path content w =
     (case writeFile_error K path of
        Some err \<Rightarrow> (Some err, w)
      | None \<Rightarrow> (None, emit (EvWriteFile path content) (w\<lparr>files := (files w)(path \<mapsto> File content)\<rparr>)))"

definition writeNewDERPConfig :: "keystore \<Rightarrow> string \<Rightarrow> world \<Rightarrow> (error + derpConfig) \<times> world" where
  "writeNewDERPConfig K path w =
     (let newKey = key_NewNode K in
      case os_MkdirAll K (filepath_Dir K path) w of
        (Some err, w1) \<Rightarrow> (Inl err, w1)
      | (None, w1) \<Rightarrow>
          let config = \<lparr>PrivateKey = newKey\<rparr> in
          (case json_Marshal K config of
             Inl err \<Rightarrow> (Inl err, w1)
           | Inr content \<Rightarrow>
               (case os_WriteFile K path content w1 of
                  (Some err, w2) \<Rightarrow> (Inl err, w2)
                | (None, w2) \<Rightarrow> (Inr config, w2))))"

definition readDERPConfig :: "keystore \<Rightarrow> string \<Rightarrow> world \<Rightarrow> (error + derpConfig) \<times> world" where
  "readDERPConfig K path w =
     (case os_ReadFile path w of
        (Inl err, w1) \<Rightarrow>
          if os_IsNotExist err then writeNewDERPConfig K path w1 else (Inl err, w1)
      | (Inr content, w1) \<Rightarrow>
          (case json_Unmarshal K content of
             Inl err \<Rightarrow> (Inl err, w1)
           | Inr config \<Rightarrow> (Inr config, w1)))"

subsection \<open>The inbound and its constructor\<close>

record InboundTLSOptions =
  inbound_Enabled :: bool
  inbound_ALPN :: "string list"

text \<open>
  \<open>tls.ServerConfig\<close>, as far as \<open>Start\<close> uses it: the list behind \<open>NextProtos\<close> and
  \<open>SetNextProtos\<close>.
\<close>

record tlsServerConfig =
  nextProtos :: "string list"

text \<open>
  \<open>derp.Server\<close>, as far as this package uses it: the private key, the mesh key behind
  \<open>SetMeshKey\<close>, \<open>MeshKey\<close> and \<open>HasMeshKey\<close>, and the client verification URLs.
\<close>

record derpServer =
  server_privateKey :: nodePrivate
  server_meshKey :: string
  server_verifyClientURL :: "string list"

definition derp_NewServer :: "nodePrivate \<Rightarrow> derpServer" where
  "derp_NewServer privateKey =
     \<lparr>server_privateKey = privateKey, server_meshKey = [], server_verifyClientURL = []\<rparr>"

definition SetVerifyClientURL :: "string list \<Rightarrow> derpServer \<Rightarrow> derpServer" where
  "SetVerifyClientURL urls s = s\<lparr>server_verifyClientURL := urls\<rparr>"

definition SetMeshKey :: "string \<Rightarrow> derpServer \<Rightarrow> derpServer" where
  "SetMeshKey v s = s\<lparr>server_meshKey := v\<rparr>"

definition HasMeshKey :: "derpServer \<Rightarrow> bool" where
  "HasMeshKey s = (server_meshKey s \<noteq> [])"

text \<open>
  \<open>option.DERPInboundOptions\<close>: \<open>ListenPort\<close> stands for the embedded \<open>ListenOptions\<close>,
  \<open>TLS\<close> is the pointer of the embedded \<open>InboundTLSOptionsContainer\<close>.
\<close>

record DERPInboundOptions =
  ListenPort :: nat
  STUNPort :: nat
  TLS :: "InboundTLSOptions option"
  ConfigPath :: string
  VerifyClientURL :: "string list"
  MeshWith :: "DERPMeshOptions list"
  MeshPSK :: string
  MeshPSKFile :: string
  inbound_DialerOptions :: DialerOptions

text \<open>
  The fields of the struct \<open>DERPInbound\<close> that carry data: \<open>stunListenPort\<close> is
  \<open>d.stunListener.ListenOptions().ListenPort\<close>, \<open>server\<close> is \<open>nil\<close> (\<open>None\<close>) until the
  stage \<open>Start\<close> has set it.
\<close>

record DERPInbound =
  listenPort :: nat
  stunListenPort :: nat
  dialer :: DialerOptions
  tlsConfig :: tlsServerConfig
  server :: "derpServer option"
  configPath :: string
  verifyClientURL :: "string list"
  home :: string
  meshKey :: string
  meshKeyPath :: string
  meshWith :: "DERPMeshOptions list"

text \<open>
  The collaborators of the host framework, as what they answer: whether
  \<open>dialer.NewWithOptions\<close> fails for given dialer options, \<open>tls.NewServer\<close> and
  \<open>tls.NewClient\<close> with \<open>Config\<close>, the path that \<open>filemanager.BasePath\<close> makes of the
  expanded \<open>config_path\<close>, the user id, whether \<open>tlsConfig.Start\<close>, \<open>ListenTCP\<close> and
  \<open>ListenUDP\<close> fail, whether \<open>derphttp.NewClient\<close> fails for a URL, the address
  string of \<open>ServerOptions.Build\<close>, and the key store. \<open>tlsConfig.Start\<close> leaves the
  next-protocol list as it is.
\<close>

record host =
  dialer_NewWithOptions :: "DialerOptions \<Rightarrow> error option"
  tls_NewServer :: "InboundTLSOptions \<Rightarrow> error + tlsServerConfig"
  basePath_ExpandEnv :: "string \<Rightarrow> string"
  os_Getuid :: nat
  tlsConfig_Start :: "error option"
  listener_ListenTCP :: "error option"
  stunListener_ListenUDP :: "error option"
  tls_NewClient :: "string \<Rightarrow> OutboundTLSOptions \<Rightarrow> error + tlsClientConfig"
  tlsClientConfig_Config :: "tlsClientConfig \<Rightarrow> error + stdConfig"
  derphttp_NewClient :: "nodePrivate \<Rightarrow> string \<Rightarrow> error option"
  server_Build_String :: "DERPMeshOptions \<Rightarrow> string"
  keys :: keystore

definition NewDERPInbound :: "host \<Rightarrow> DERPInboundOptions \<Rightarrow> error + DERPInbound" where
  "NewDERPInbound H options =
     (case dialer_NewWithOptions H (inbound_DialerOptions options) of
        Some err \<Rightarrow> Inl err
      | None \<Rightarrow>
     (case TLS options of
        None \<Rightarrow> Inl (New ''TLS is required for DERP server'')
      | Some tlsOptions \<Rightarrow>
     if \<not> inbound_Enabled tlsOptions then Inl (New ''TLS is required for DERP server'')
     else
     (case tls_NewServer H tlsOptions of
        Inl err \<Rightarrow> Inl err
      | Inr tlsConfig' \<Rightarrow>
     (case (if ConfigPath options \<noteq> [] then Inr (basePath_ExpandEnv H (ConfigPath options))
            else if os_Getuid H = 0 then Inr ''/var/lib/derper/derper.key''
            else Inl (New ''missing config_path'')) of
        Inl err \<Rightarrow> Inl err
      | Inr configPath' \<Rightarrow>
     (case (if MeshPSK options \<noteq> [] then checkMeshKey (MeshPSK options) else None) of
        Some err \<Rightarrow> Inl (Cause err ''invalid mesh_psk'')
      | None \<Rightarrow>
          Inr \<lparr>listenPort = ListenPort options,
               stunListenPort = STUNPort options,
               dialer = inbound_DialerOptions options,
               tlsConfig = tlsConfig',
               server = None,
               configPath = configPath',
               verifyClientURL = VerifyClientURL options,
               home = [],
               meshKey = MeshPSK options,
               meshKeyPath = MeshPSKFile options,
               meshWith = MeshWith options\<rparr>)))))"

subsection \<open>Starting a mesh peer\<close>

text \<open>
  \<open>startMeshWithHost\<close> up to its \<open>go\<close> statement: the client of the peer, or the error of
  the dialer, of the client TLS configuration or of \<open>derphttp.NewClient\<close>.
\<close>

definition newMeshClient :: "host \<Rightarrow> derpServer \<Rightarrow> DERPMeshOptions \<Rightarrow> error + meshClient" where
  "newMeshClient H derpServer' peer =
     (let hostname = (if Hostname peer \<noteq> [] then Hostname peer else Server peer) in
      case dialer_NewWithOptions H (mesh_DialerOptions peer) of
        Some err \<Rightarrow> Inl err
      | None \<Rightarrow>
      (case (case mesh_TLS peer of
               None \<Rightarrow> Inr None
             | Some tlsOptions \<Rightarrow>
                 if outbound_Enabled tlsOptions then
                   (case tls_NewClient H hostname tlsOptions of
                      Inl err \<Rightarrow> Inl err
                    | Inr tlsConfig' \<Rightarrow>
                        (case tlsClientConfig_Config H tlsConfig' of
                           Inl err \<Rightarrow> Inl err
                         | Inr std \<Rightarrow> Inr (Some std)))
                 else Inr None) of
         Inl err \<Rightarrow> Inl err
       | Inr stdConfig' \<Rightarrow>
           (let url = ''https://'' @ server_Build_String H peer @ ''/derp'' in
            case derphttp_NewClient H (server_privateKey derpServer') url of
              Some err \<Rightarrow> Inl err
            | None \<Rightarrow>
                Inr \<lparr>client_privateKey = server_privateKey derpServer',
                     client_url = url,
                     client_TLSConfig = stdConfig',
                     client_MeshKey = server_meshKey derpServer',
                     client_WatchConnectionChanges = True,
                     client_dialer = mesh_DialerOptions peer\<rparr>)))"

definition startMeshWithHost ::
  "host \<Rightarrow> derpServer \<Rightarrow> DERPMeshOptions \<Rightarrow> world \<Rightarrow> error option \<times> world" where
  "startMeshWithHost H derpServer' peer w =
     (case newMeshClient H derpServer' peer of
        Inl err \<Rightarrow> (Some err, w)
      | Inr meshClient' \<Rightarrow> (None, emit (EvGoRunWatchConnectionLoop meshClient') w))"

text \<open>The loop over \<open>d.meshWith\<close> in the stage \<open>PostStart\<close>: it returns at the first error.\<close>

fun startMeshPeers ::
  "host \<Rightarrow> derpServer \<Rightarrow> DERPMeshOptions list \<Rightarrow> world \<Rightarrow> error option \<times> world" where
  "startMeshPeers H derpServer' [] w = (None, w)"
| "startMeshPeers H derpServer' (options # rest) w =
     (case startMeshWithHost H derpServer' options w of
        (Some err, w1) \<Rightarrow> (Some err, w1)
      | (None, w1) \<Rightarrow> startMeshPeers H derpServer' rest w1)"

subsection \<open>The stages of Start\<close>

datatype StartStage =
    StartStateInitialize
  | StartStateStart
  | StartStatePostStart
  | StartStateStarted

definition http2_NextProtoTLS :: string where
  "http2_NextProtoTLS = ''h2''"

definition common_Contains :: "string list \<Rightarrow> string \<Rightarrow> bool" where
  "common_Contains xs x = list_ex (\<lambda>y. y = x) xs"

definition derpMux :: "handler option \<Rightarrow> (string \<times> route) list" where
  "derpMux homeHandler =
     [(''/derp'', DerpWithWebSocketSupport),
      (''/derp/probe'', ProbeHandler),
      (''/derp/latency-check'', ProbeHandler),
      (''/bootstrap-dns'', BootstrapDNS),
      (''/'', BrowserHeadersThen homeHandler),
      (''/robots.txt'', RobotsTxt),
      (''/generate_204'', ServeNoContent)]"

text \<open>
  \<open>Start\<close> returns its error, the inbound as the stage leaves it (\<open>d.server\<close> and the
  next-protocol list of \<open>d.tlsConfig\<close> are assigned on the way) and the world. The
  goroutine of \<open>httpServer.Serve\<close> is recorded with the routes and the next-protocol
  list of its listener. In the stage \<open>PostStart\<close>, calling \<open>HasMeshKey\<close> on a \<open>nil\<close>
  server is a nil pointer dereference. The stages other than \<open>Start\<close> and \<open>PostStart\<close>
  do nothing.
\<close>

definition Start ::
  "host \<Rightarrow> DERPInbound \<Rightarrow> StartStage \<Rightarrow> world \<Rightarrow> error option \<times> DERPInbound \<times> world" where
  "Start H d stage w =
     (case stage of
        StartStateStart \<Rightarrow>
          (case readDERPConfig (keys H) (configPath d) w of
             (Inl err, w1) \<Rightarrow> (Some err, d, w1)
           | (Inr config, w1) \<Rightarrow>
          (let server0 = SetVerifyClientURL (verifyClientURL d) (derp_NewServer (PrivateKey config)) in
           case (if meshKey d \<noteq> [] then (Inr (SetMeshKey (meshKey d) server0), w1)
                 else if meshKeyPath d \<noteq> [] then
                   (case os_ReadFile (meshKeyPath d) w1 of
                      (Inl err, w2) \<Rightarrow> (Inl err, w2)
                    | (Inr meshKeyContent, w2) \<Rightarrow>
                        (case checkMeshKey meshKeyContent of
                           Some err \<Rightarrow> (Inl (Cause err ''invalid mesh_psk_path file''), w2)
                         | None \<Rightarrow> (Inr (SetMeshKey meshKeyContent server0), w2)))
                 else (Inr server0, w1)) of
             (Inl err, w2) \<Rightarrow> (Some err, d, w2)
           | (Inr server1, w2) \<Rightarrow>
          (let d1 = d\<lparr>server := Some server1\<rparr> in
           case getHomeHandler (home d1) of (homeHandler, ok) \<Rightarrow>
           if \<not> ok then (Some (New (''invalid home value: '' @ home d1)), d1, w2)
           else
          (case tlsConfig_Start H of
             Some err \<Rightarrow> (Some err, d1, w2)
           | None \<Rightarrow>
          (let w3 = emit EvTLSStart w2 in
           case listener_ListenTCP H of
             Some err \<Rightarrow> (Some err, d1, w3)
           | None \<Rightarrow>
          (let w4 = emit EvListenTCP w3;
               protos = nextProtos (tlsConfig d1);
               protos' =
                 (if length protos = 0 then [http2_NextProtoTLS, ''http/1.1'']
                  else if \<not> common_Contains protos http2_NextProtoTLS
                  then [http2_NextProtoTLS] @ protos
                  else protos);
               d2 = d1\<lparr>tlsConfig := (tlsConfig d1)\<lparr>nextProtos := protos'\<rparr>\<rparr>;
               w5 = emit (EvGoServe (derpMux homeHandler) protos') w4
           in
           if stunListenPort d2 \<noteq> 0 then
             (case stunListener_ListenUDP H of
                Some err \<Rightarrow> (Some err, d2, w5)
              | None \<Rightarrow> (None, d2, emit EvGoLoopSTUN (emit EvListenUDP w5)))
           else (None, d2, w5)))))))
      | StartStatePostStart \<Rightarrow>
          if length (meshWith d) > 0 then
            (case server d of
               None \<Rightarrow> (Some (Panic ''nil pointer dereference''), d, w)
             | Some derpServer' \<Rightarrow>
                 if \<not> HasMeshKey derpServer' then (Some (New ''missing mesh psk''), d, w)
                 else
                   (case startMeshPeers H derpServer' (meshWith d) w of
                      (res, w1) \<Rightarrow> (res, d, w1)))
          else (None, d, w)
      | _ \<Rightarrow> (None, d, w))"

text \<open>
  Modelled from the spec: the host framework that drives the inbound is not part of
  this package. By sections 4.2 and 7 of the spec the inbound is constructed, then
  started in the stage Start, then in the stage PostStart, and a step that fails aborts
  the inbound: no later step runs. \<open>bringUp\<close> reports the step that failed.
\<close>

datatype phase =
    Construction
  | StageStart
  | StagePostStart

definition bringUp :: "host \<Rightarrow> DERPInboundOptions \<Rightarrow> world \<Rightarrow> (phase \<times> error) option \<times> world" where
  "bringUp H options w =
     (case NewDERPInbound H options of
        Inl err \<Rightarrow> (Some (Construction, err), w)
      | Inr d \<Rightarrow>
          (case Start H d StartStateStart w of
             (Some err, d1, w1) \<Rightarrow> (Some (StageStart, err), w1)
           | (None, d1, w1) \<Rightarrow>
               (case Start H d1 StartStatePostStart w1 of
                  (Some err, d2, w2) \<Rightarrow> (Some (StagePostStart, err), w2)
                | (None, d2, w2) \<Rightarrow> (None, w2))))"

subsection \<open>The STUN loop\<close>

text \<open>
  What the loop takes from outside: \<open>stun.Is\<close>, \<open>stun.ParseBindingRequest\<close>,
  \<open>stun.Response\<close> and \<open>E.IsClosedOrCanceled\<close>. A read of the socket yields an error, or
  the bytes of a datagram and the address of its sender; the \<open>k\<close>-th read of a run is
  \<open>reads k\<close>. The loop sleeps and writes to the socket.
\<close>

type_synonym addrPort = string

record stun =
  stun_Is :: "string \<Rightarrow> bool"
  stun_ParseBindingRequest :: "string \<Rightarrow> error + string"
  stun_Response :: "string \<Rightarrow> addrPort \<Rightarrow> string"
  IsClosedOrCanceled :: "error \<Rightarrow> bool"

datatype udpRead =
    ReadError error
  | Datagram string addrPort

datatype stunEvent =
    Sleep nat
  | WriteToUDPAddrPort string addrPort

text \<open>\<open>time.Second\<close>, in nanoseconds.\<close>

definition time_Second :: nat where
  "time_Second = 1000000000"

text \<open>
  One round of the loop, from the result of its read: \<open>None\<close> when the loop returns,
  otherwise what the round does before the next read. The buffer holds \<open>64 << 10\<close>
  bytes.
\<close>

definition stunRound :: "stun \<Rightarrow> udpRead \<Rightarrow> stunEvent list option" where
  "stunRound S rd =
     (case rd of
        ReadError err \<Rightarrow>
          if IsClosedOrCanceled S err then None else Some [Sleep time_Second]
      | Datagram bytes addrPort' \<Rightarrow>
          (let pkt = take (64 * 2 ^ 10) bytes in
           if \<not> stun_Is S pkt then Some []
           else
             (case stun_ParseBindingRequest S pkt of
                Inl err \<Rightarrow> Some []
              | Inr txid \<Rightarrow> Some [WriteToUDPAddrPort (stun_Response S txid addrPort') addrPort'])))"

text \<open>
  The loop from its \<open>k\<close>-th read on, with what it has done so far: \<open>Some\<close> of all it
  did when it returns, \<open>None\<close> when it runs forever.
\<close>

partial_function (option) loopSTUN ::
  "stun \<Rightarrow> (nat \<Rightarrow> udpRead) \<Rightarrow> nat \<Rightarrow> stunEvent list \<Rightarrow> stunEvent list option" where
  "loopSTUN S reads k did =
     (case stunRound S (reads k) of
        None \<Rightarrow> Some did
      | Some evs \<Rightarrow> loopSTUN S reads (Suc k) (did @ evs))"

text \<open>The spec's words: the read is an error of a closed socket or a cancelled operation.\<close>

definition closedOrCanceled :: "stun \<Rightarrow> udpRead \<Rightarrow> bool" where
  "closedOrCanceled S rd = (case rd of ReadError err \<Rightarrow> IsClosedOrCanceled S err | Datagram b a \<Rightarrow> False)"

subsection \<open>A sample encoding of the key file\<close>

text \<open>
  An encoding for the concrete runs below: the key bytes in lowercase hexadecimal after
  the prefix \<open>privkey:\<close>, as the one field of a JSON object. The reader accepts
  documents of exactly this form.
\<close>

definition hexDigits :: string where
  "hexDigits = ''0123456789abcdef''"

definition toHex :: "string \<Rightarrow> string" where
  "toHex bs = concat (map (\<lambda>b. [hexDigits ! ((of_char b :: nat) div 16),
                                  hexDigits ! ((of_char b :: nat) mod 16)]) bs)"

definition fromHexDigit :: "char \<Rightarrow> nat option" where
  "fromHexDigit c = map_of (zip hexDigits [0 ..< 16]) c"

fun fromHex :: "string \<Rightarrow> string option" where
  "fromHex [] = Some []"
| "fromHex [c] = None"
| "fromHex (h # l # rest) =
     (case (fromHexDigit h, fromHexDigit l, fromHex rest) of
        (Some hi, Some lo, Some bs) \<Rightarrow> Some (char_of (16 * hi + lo) # bs)
      | _ \<Rightarrow> None)"

definition sample_prefix :: string where
  \<open>sample_prefix = ''{"PrivateKey":"privkey:''\<close>

definition sample_suffix :: string where
  \<open>sample_suffix = ''"}''\<close>

definition sample_Marshal :: "derpConfig \<Rightarrow> error + string" where
  "sample_Marshal c = Inr (sample_prefix @ toHex (PrivateKey c) @ sample_suffix)"

definition sample_Unmarshal :: "string \<Rightarrow> error + derpConfig" where
  "sample_Unmarshal s =
     (if length sample_prefix + length sample_suffix \<le> length s \<and>
         take (length sample_prefix) s = sample_prefix \<and>
         drop (length s - length sample_suffix) s = sample_suffix
      then
        (case fromHex (take (length s - length sample_prefix - length sample_suffix)
                         (drop (length sample_prefix) s)) of
           Some k \<Rightarrow> Inr \<lparr>PrivateKey = k\<rparr>
         | None \<Rightarrow> Inl (Ext ''invalid key''))
      else Inl (Ext ''invalid JSON''))"

definition sample_keys :: keystore where
  "sample_keys =
     \<lparr>key_NewNode = ''0123456789abcdefghijklmnopqrstuv'',
      json_Marshal = sample_Marshal,
      json_Unmarshal = sample_Unmarshal,
      filepath_Dir = (\<lambda>p. rev (tl (dropWhile (\<lambda>c. c \<noteq> CHR ''/'') (rev p)))),
      mkdirAll_error = (\<lambda>p. None),
      writeFile_error = (\<lambda>p. None)\<rparr>"

subsection \<open>The words of the spec\<close>








subsection \<open>A sample host\<close>

text \<open>
  Collaborators for the concrete runs below: everything succeeds, except that a client
  TLS configuration cannot be built from the certificate file \<open>/missing.pem\<close>. Two
  peers, the first with such a TLS configuration, the second without TLS.
\<close>

definition sample_host :: host where
  "sample_host =
     \<lparr>dialer_NewWithOptions = (\<lambda>opts. None),
      tls_NewServer = (\<lambda>opts. Inr \<lparr>nextProtos = inbound_ALPN opts\<rparr>),
      basePath_ExpandEnv = (\<lambda>p. p),
      os_Getuid = 0,
      tlsConfig_Start = None,
      listener_ListenTCP = None,
      stunListener_ListenUDP = None,
      tls_NewClient = (\<lambda>hostname opts.
         if outbound_CertificatePath opts = ''/missing.pem''
         then Inl (Ext ''read certificate: no such file'') else Inr hostname),
      tlsClientConfig_Config = (\<lambda>c. Inr c),
      derphttp_NewClient = (\<lambda>k url. None),
      server_Build_String = (\<lambda>peer. Server peer @ '':443''),
      keys = sample_keys\<rparr>"

definition sample_peer1 :: DERPMeshOptions where
  "sample_peer1 =
     \<lparr>Server = ''derp1.example.org'', ServerPort = 443, mesh_DialerOptions = [],
      mesh_TLS = Some \<lparr>outbound_Enabled = True, outbound_ServerName = [],
                       outbound_CertificatePath = ''/missing.pem''\<rparr>,
      Hostname = []\<rparr>"

definition sample_peer2 :: DERPMeshOptions where
  "sample_peer2 =
     \<lparr>Server = ''derp2.example.org'', ServerPort = 443, mesh_DialerOptions = [],
      mesh_TLS = None, Hostname = []\<rparr>"

definition sample_options :: DERPInboundOptions where
  "sample_options =
     \<lparr>ListenPort = 443, STUNPort = 3478,
      TLS = Some \<lparr>inbound_Enabled = True, inbound_ALPN = []\<rparr>,
      ConfigPath = ''/etc/derper/derper.key'',
      VerifyClientURL = [],
      MeshWith = [sample_peer2],
      MeshPSK = [],
      MeshPSKFile = [],
      inbound_DialerOptions = []\<rparr>"

definition sample_meshKey :: string where
  "sample_meshKey = ''0123456789abcdef0123456789abcdef0123456789abcdef0123456789abcdef''"

definition sample_world :: world where
  "sample_world =
     \<lparr>files = [''/etc/derper/mesh.key'' \<mapsto> File ''0123456789ABCDEF'',
               ''/etc/derper/good.key'' \<mapsto> File sample_meshKey],
      trace = []\<rparr>"

definition sample_inbound :: DERPInbound where
  "sample_inbound =
     \<lparr>listenPort = 443, stunListenPort = 3478, dialer = [],
      tlsConfig = \<lparr>nextProtos = [''http/1.1'']\<rparr>,
      server = None,
      configPath = ''/etc/derper/derper.key'',
      verifyClientURL = [],
      home = [],
      meshKey = sample_meshKey,
      meshKeyPath = ''/etc/derper/mesh.key'',
      meshWith = [sample_peer1, sample_peer2]\<rparr>"

text \<open>
  A sample socket for the STUN loop: a packet is taken for STUN when it starts with
  \<open>S\<close>, its transaction id is the rest, which must not be empty; the socket yields a
  packet that is not STUN, a transient error, a binding request, a malformed STUN
  packet, and then is closed.
\<close>

definition sample_stun :: stun where
  "sample_stun =
     \<lparr>stun_Is = (\<lambda>pkt. take 1 pkt = ''S''),
      stun_ParseBindingRequest =
        (\<lambda>pkt. if length pkt < 2 then Inl (Ext ''malformed STUN packet'') else Inr (drop 1 pkt)),
      stun_Response = (\<lambda>txid addr. ''R'' @ txid @ ''@'' @ addr),
      IsClosedOrCanceled = (\<lambda>err. err = Ext ''use of closed network connection'')\<rparr>"

definition sample_reads :: "nat \<Rightarrow> udpRead" where
  "sample_reads k =
     (if k = 0 then Datagram ''hello'' ''192.0.2.1:5000''
      else if k = 1 then ReadError (Ext ''i/o timeout'')
      else if k = 2 then Datagram ''Sabc'' ''192.0.2.2:6000''
      else if k = 3 then Datagram ''S'' ''192.0.2.3:7000''
      else ReadError (Ext ''use of closed network connection''))"

section \<open>The mesh key check\<close>

lemma in_class_hex:
  "in_class [(CHR ''0'', CHR ''9''), (CHR ''a'', CHR ''f'')] c = lowercase_hex c"
proof -
  obtain n :: nat where n: "n = of_char c" by simp
  have e: "(48 \<le> n \<and> n \<le> 57 \<or> 97 \<le> n \<and> n \<le> 102) \<longleftrightarrow>
      n \<in> {48,49,50,51,52,53,54,55,56,57,97,98,99,100,101,102}"
    by (simp only: insert_iff empty_iff) arith
  have l: "in_class [(CHR ''0'', CHR ''9''), (CHR ''a'', CHR ''f'')] c =
      (48 \<le> n \<and> n \<le> 57 \<or> 97 \<le> n \<and> n \<le> 102)"
    by (simp add: in_class_def n)
  have q: "(c = d) = ((of_char c :: nat) = of_char d)" for d
    by simp
  have r: "lowercase_hex c = (n \<in> {48,49,50,51,52,53,54,55,56,57,97,98,99,100,101,102})"
    unfolding lowercase_hex_def n by (simp add: q)
  show ?thesis using e l r by simp
qed

text \<open>A counted repetition of a class consumes exactly that many characters of the class.\<close>

lemma rmatch_Repeat_class:
  "rmatch (Repeat n (CharClass rs)) s i =
     (if \<forall>j<n. i + j < length s \<and> in_class rs (s ! (i + j)) then [i + n] else [])"
proof (induction n arbitrary: i)
  case 0
  show ?case by simp
next
  case (Suc n)
  have split: "(\<forall>j<Suc n. i + j < length s \<and> in_class rs (s ! (i + j))) \<longleftrightarrow>
      (i < length s \<and> in_class rs (s ! i)) \<and>
      (\<forall>j<n. Suc i + j < length s \<and> in_class rs (s ! (Suc i + j)))"
    by (auto simp: less_Suc_eq_0_disj)
  show ?case
  proof (cases "i < length s \<and> in_class rs (s ! i)")
    case True
    then have "rmatch (Repeat (Suc n) (CharClass rs)) s i =
        rmatch (Repeat n (CharClass rs)) s (Suc i)"
      by simp
    also have "\<dots> = (if \<forall>j<n. Suc i + j < length s \<and> in_class rs (s ! (Suc i + j))
                       then [Suc i + n] else [])"
      by (rule Suc.IH)
    finally show ?thesis
      unfolding split using True by simp
  next
    case False
    then have e: "rmatch (Repeat (Suc n) (CharClass rs)) s i = []"
      by auto
    have "\<not> (\<forall>j<Suc n. i + j < length s \<and> in_class rs (s ! (i + j)))"
      unfolding split using False by blast
    then show ?thesis
      by (simp only: e if_False)
  qed
qed

lemma MatchString_meshKeyPattern:
  "regexp_MatchString meshKeyPattern s \<longleftrightarrow> length s = 64 \<and> (\<forall>c \<in> set s. lowercase_hex c)"
proof -
  let ?cls = "[(CHR ''0'', CHR ''9''), (CHR ''a'', CHR ''f'')]"
  have at: "rmatch meshKeyPattern s i \<noteq> [] \<longleftrightarrow>
      i = 0 \<and> length s = 64 \<and> (\<forall>j<64. in_class ?cls (s ! j))" for i
    by (auto simp: meshKeyPattern_def rmatch_Repeat_class)
  have "regexp_MatchString meshKeyPattern s \<longleftrightarrow>
      length s = 64 \<and> (\<forall>j<64. in_class ?cls (s ! j))"
    unfolding regexp_MatchString_def list_ex_iff at by auto
  also have "\<dots> \<longleftrightarrow> length s = 64 \<and> (\<forall>c \<in> set s. lowercase_hex c)"
    by (auto simp: in_class_hex all_set_conv_all_nth)
  finally show ?thesis .
qed

text \<open>
  Claim C1. \<open>checkMeshKey\<close> succeeds (returns \<open>nil\<close>) exactly on the strings of length 64
  whose characters are all lowercase hexadecimal digits; on every other string it
  returns its error.
\<close>

theorem checkMeshKey_iff:
  "(checkMeshKey k = None \<longleftrightarrow> length k = 64 \<and> (\<forall>c \<in> set k. lowercase_hex c)) \<and>
   (checkMeshKey k \<noteq> None \<longrightarrow>
      checkMeshKey k = Some (New ''key must contain exactly 64 hex digits''))"
proof -
  have check: "checkMeshKey k =
      (if regexp_MatchString meshKeyPattern k then None
       else Some (New ''key must contain exactly 64 hex digits''))"
    by (simp add: checkMeshKey_def regexp_Compile_meshKeyPattern_def)
  have matches: "regexp_MatchString meshKeyPattern k \<longleftrightarrow>
      length k = 64 \<and> (\<forall>c \<in> set k. lowercase_hex c)"
    by (rule MatchString_meshKeyPattern)
  show ?thesis
  proof (cases "regexp_MatchString meshKeyPattern k")
    case True
    with check matches show ?thesis by simp
  next
    case False
    with check matches show ?thesis by simp
  qed
qed

theorem checkMeshKey_iff_witness:
  "checkMeshKey ''0123456789abcdef0123456789abcdef0123456789abcdef0123456789abcdef'' = None \<and>
   checkMeshKey ''0123456789ABCDEF0123456789abcdef0123456789abcdef0123456789abcdef'' =
     Some (New ''key must contain exactly 64 hex digits'') \<and>
   checkMeshKey ''0123456789abcdef'' \<noteq> None"
proof -
  have good:
    "checkMeshKey ''0123456789abcdef0123456789abcdef0123456789abcdef0123456789abcdef'' = None"
    using checkMeshKey_iff [of "''0123456789abcdef0123456789abcdef0123456789abcdef0123456789abcdef''"]
    by (simp add: lowercase_hex_def)
  have upper:
    "checkMeshKey ''0123456789ABCDEF0123456789abcdef0123456789abcdef0123456789abcdef'' =
       Some (New ''key must contain exactly 64 hex digits'')"
    using checkMeshKey_iff [of "''0123456789ABCDEF0123456789abcdef0123456789abcdef0123456789abcdef''"]
    by (simp add: lowercase_hex_def)
  have short: "checkMeshKey ''0123456789abcdef'' \<noteq> None"
    using checkMeshKey_iff [of "''0123456789abcdef''"] by simp
  show ?thesis using good upper short by simp
qed

section \<open>Routing between the base handler and WebSocket\<close>








section \<open>The key store\<close>

lemma emitted_emit [simp]: "emitted w (emit e w) = [e]"
  by (simp add: emitted_def emit_def)

lemma emitted_emit2 [simp]: "emitted w (emit e2 (emit e1 w)) = [e1, e2]"
  by (simp add: emitted_def emit_def)

lemma files_emit [simp]: "files (emit e w) = files w"
  by (simp add: emit_def)

lemma trace_emit [simp]: "trace (emit e w) = trace w @ [e]"
  by (simp add: emit_def)

lemma os_ReadFile_simps:
  "files w path = None \<Longrightarrow> os_ReadFile path w = (Inl ENOENT, emit (EvReadFile path) w)"
  "files w path = Some (File content) \<Longrightarrow> os_ReadFile path w = (Inr content, emit (EvReadFile path) w)"
  "files w path = Some (Unreadable msg) \<Longrightarrow> os_ReadFile path w = (Inl (IOErr msg), emit (EvReadFile path) w)"
  by (simp_all add: os_ReadFile_def)

lemma writeNewDERPConfig_success:
  assumes "writeNewDERPConfig K path w = (Inr cfg, w')"
  shows "cfg = \<lparr>PrivateKey = key_NewNode K\<rparr> \<and>
         (\<exists>content. json_Marshal K cfg = Inr content \<and> files w' path = Some (File content))"
  using assms
  by (auto simp: writeNewDERPConfig_def os_MkdirAll_def os_WriteFile_def Let_def
           split: option.splits sum.splits)

text \<open>
  Claim C4. When \<open>writeNewDERPConfig\<close> has written a new key file at a path, its
  configuration holds the key that was generated, and a later \<open>readDERPConfig\<close> at the
  same path returns that same configuration, for every generated key: the reader has
  a key store of its own, whose \<open>key.NewNode\<close> would give any other key, and runs in
  any world that holds the written file at the path, provided the reader's JSON
  decoding reads back what the writer's encoding wrote.
\<close>

theorem identity_roundtrip:
  assumes "\<forall>c s. json_Marshal K c = Inr s \<longrightarrow> json_Unmarshal K' s = Inr c"
      and "writeNewDERPConfig K path w = (Inr cfg, w')"
      and "files w'' path = files w' path"
  shows "PrivateKey cfg = key_NewNode K \<and>
         readDERPConfig K' path w'' = (Inr cfg, emit (EvReadFile path) w'')"
proof -
  from writeNewDERPConfig_success [OF assms(2)]
  obtain content where cfg: "cfg = \<lparr>PrivateKey = key_NewNode K\<rparr>"
    and m: "json_Marshal K cfg = Inr content" and f: "files w' path = Some (File content)"
    by blast
  from assms(1) m have u: "json_Unmarshal K' content = Inr cfg"
    by blast
  from f assms(3) have f': "files w'' path = Some (File content)"
    by simp
  have "readDERPConfig K' path w'' = (Inr cfg, emit (EvReadFile path) w'')"
    by (simp add: readDERPConfig_def os_ReadFile_simps(2) [OF f'] u)
  with cfg show ?thesis by simp
qed

lemma fromHexDigit_hexDigits: "i < 16 \<Longrightarrow> fromHexDigit (hexDigits ! i) = Some i"
proof -
  have "\<forall>i \<in> set [0 ..< 16]. fromHexDigit (hexDigits ! i) = Some i"
    by code_simp
  then show "i < 16 \<Longrightarrow> fromHexDigit (hexDigits ! i) = Some i"
    by simp
qed

lemma fromHex_toHex: "fromHex (toHex k) = Some k"
proof (induction k)
  case Nil
  show ?case by (simp add: toHex_def)
next
  case (Cons b k)
  let ?n = "of_char b :: nat"
  have n: "?n < 256" by simp
  then have hi: "?n div 16 < 16" by (simp add: less_mult_imp_div_less)
  have lo: "?n mod 16 < 16" by simp
  have b: "char_of (16 * (?n div 16) + ?n mod 16) = b" by simp
  have "toHex (b # k) = hexDigits ! (?n div 16) # hexDigits ! (?n mod 16) # toHex k"
    by (simp add: toHex_def)
  then show ?case
    using Cons.IH b by (simp add: fromHexDigit_hexDigits [OF hi] fromHexDigit_hexDigits [OF lo])
qed

lemma sample_Unmarshal_Marshal: "sample_Marshal c = Inr s \<Longrightarrow> sample_Unmarshal s = Inr c"
  by (auto simp: sample_Marshal_def sample_Unmarshal_def fromHex_toHex)

theorem identity_roundtrip_witness:
  "fst (writeNewDERPConfig sample_keys ''/var/lib/derper/derper.key'' \<lparr>files = Map.empty, trace = []\<rparr>)
     = Inr \<lparr>PrivateKey = ''0123456789abcdefghijklmnopqrstuv''\<rparr> \<and>
   key_NewNode (sample_keys\<lparr>key_NewNode := ''VUTSRQPONMLKJIHGFEDCBA9876543210''\<rparr>)
     \<noteq> ''0123456789abcdefghijklmnopqrstuv'' \<and>
   fst (readDERPConfig (sample_keys\<lparr>key_NewNode := ''VUTSRQPONMLKJIHGFEDCBA9876543210''\<rparr>)
          ''/var/lib/derper/derper.key''
          (snd (writeNewDERPConfig sample_keys ''/var/lib/derper/derper.key''
                  \<lparr>files = Map.empty, trace = []\<rparr>)))
     = Inr \<lparr>PrivateKey = ''0123456789abcdefghijklmnopqrstuv''\<rparr>"
proof -
  let ?p = "''/var/lib/derper/derper.key''"
  let ?w = "\<lparr>files = Map.empty, trace = []\<rparr>"
  let ?cfg = "\<lparr>PrivateKey = ''0123456789abcdefghijklmnopqrstuv''\<rparr>"
  let ?K' = "sample_keys\<lparr>key_NewNode := ''VUTSRQPONMLKJIHGFEDCBA9876543210''\<rparr>"
  have codec: "\<forall>c s. json_Marshal sample_keys c = Inr s \<longrightarrow> json_Unmarshal ?K' s = Inr c"
    by (simp add: sample_keys_def sample_Unmarshal_Marshal)
  have wr: "fst (writeNewDERPConfig sample_keys ?p ?w) = Inr ?cfg"
    by (simp add: writeNewDERPConfig_def os_MkdirAll_def os_WriteFile_def sample_keys_def
          sample_Marshal_def Let_def)
  then have run: "writeNewDERPConfig sample_keys ?p ?w =
      (Inr ?cfg, snd (writeNewDERPConfig sample_keys ?p ?w))"
    by (metis prod.collapse)
  have other: "key_NewNode ?K' \<noteq> ''0123456789abcdefghijklmnopqrstuv''"
    by simp
  from identity_roundtrip [OF codec run refl] wr other
  show ?thesis by simp
qed

text \<open>
  Claim C5. \<open>readDERPConfig\<close> writes a new key only when nothing exists at the path. When
  a file exists and does not parse, it returns the parse error; when the read fails for
  another reason than absence, it returns that error; in both cases, and whenever
  something exists at the path, no file is changed and the read is the only file
  operation.
\<close>

theorem readDERPConfig_existing_file:
  "(files w path = Some (File content) \<and> json_Unmarshal K content = Inl e \<longrightarrow>
      readDERPConfig K path w = (Inl e, emit (EvReadFile path) w)) \<and>
   (files w path = Some (Unreadable msg) \<longrightarrow>
      readDERPConfig K path w = (Inl (IOErr msg), emit (EvReadFile path) w)) \<and>
   (files w path \<noteq> None \<longrightarrow>
      files (snd (readDERPConfig K path w)) = files w \<and>
      emitted w (snd (readDERPConfig K path w)) = [EvReadFile path]) \<and>
   (files w path = None \<longrightarrow>
      readDERPConfig K path w = writeNewDERPConfig K path (emit (EvReadFile path) w))"
proof -
  have a: "files w path = Some (File content) \<and> json_Unmarshal K content = Inl e \<longrightarrow>
      readDERPConfig K path w = (Inl e, emit (EvReadFile path) w)"
    by (simp add: readDERPConfig_def os_ReadFile_def)
  have b: "files w path = Some (Unreadable msg) \<longrightarrow>
      readDERPConfig K path w = (Inl (IOErr msg), emit (EvReadFile path) w)"
    by (simp add: readDERPConfig_def os_ReadFile_def os_IsNotExist_def)
  have c: "files w path \<noteq> None \<longrightarrow>
      files (snd (readDERPConfig K path w)) = files w \<and>
      emitted w (snd (readDERPConfig K path w)) = [EvReadFile path]"
    by (auto simp: readDERPConfig_def os_ReadFile_def os_IsNotExist_def
             split: node.splits sum.splits)
  have d: "files w path = None \<longrightarrow>
      readDERPConfig K path w = writeNewDERPConfig K path (emit (EvReadFile path) w)"
    by (simp add: readDERPConfig_def os_ReadFile_def os_IsNotExist_def)
  show ?thesis using a b c d by blast
qed

theorem readDERPConfig_existing_file_witness:
  "readDERPConfig sample_keys ''/etc/derper.key''
     \<lparr>files = [''/etc/derper.key'' \<mapsto> File ''not a key''], trace = []\<rparr>
   = (Inl (Ext ''invalid JSON''),
      \<lparr>files = [''/etc/derper.key'' \<mapsto> File ''not a key''], trace = [EvReadFile ''/etc/derper.key'']\<rparr>) \<and>
   readDERPConfig sample_keys ''/etc/derper.key''
     \<lparr>files = [''/etc/derper.key'' \<mapsto> Unreadable ''permission denied''], trace = []\<rparr>
   = (Inl (IOErr ''permission denied''),
      \<lparr>files = [''/etc/derper.key'' \<mapsto> Unreadable ''permission denied''],
       trace = [EvReadFile ''/etc/derper.key'']\<rparr>)"
proof -
  let ?p = "''/etc/derper.key''"
  let ?w = "\<lparr>files = [?p \<mapsto> File ''not a key''], trace = []\<rparr>"
  let ?v = "\<lparr>files = [?p \<mapsto> Unreadable ''permission denied''], trace = []\<rparr>"
  have u: "json_Unmarshal sample_keys ''not a key'' = Inl (Ext ''invalid JSON'')"
    by (simp add: sample_keys_def sample_Unmarshal_def sample_prefix_def sample_suffix_def)
  have a: "readDERPConfig sample_keys ?p ?w = (Inl (Ext ''invalid JSON''), emit (EvReadFile ?p) ?w)"
    using readDERPConfig_existing_file [of ?w ?p "''not a key''" sample_keys "Ext ''invalid JSON''"] u
    by simp
  have b: "readDERPConfig sample_keys ?p ?v = (Inl (IOErr ''permission denied''), emit (EvReadFile ?p) ?v)"
    using readDERPConfig_existing_file [of ?v ?p _ sample_keys _ "''permission denied''"]
    by simp
  show ?thesis using a b by (simp add: emit_def)
qed

section \<open>The stage Start\<close>

lemma writeNewDERPConfig_trace:
  assumes "writeNewDERPConfig K path w = (r, w1)"
  shows "\<exists>evs. trace w1 = trace w @ evs \<and> (\<forall>e \<in> set evs. isWrite e)"
  using assms
  by (auto simp: writeNewDERPConfig_def os_MkdirAll_def os_WriteFile_def Let_def emit_def
           split: option.splits sum.splits)

lemma readDERPConfig_trace:
  assumes "readDERPConfig K path w = (r, w1)"
  shows "\<exists>evs. trace w1 = trace w @ EvReadFile path # evs \<and> (\<forall>e \<in> set evs. isWrite e)"
proof (cases "files w path")
  case None
  then have "writeNewDERPConfig K path (emit (EvReadFile path) w) = (r, w1)"
    using assms by (simp add: readDERPConfig_def os_ReadFile_def os_IsNotExist_def)
  from writeNewDERPConfig_trace [OF this] show ?thesis
    by (auto simp: emit_def)
next
  case (Some nd)
  then have "w1 = emit (EvReadFile path) w"
    using assms
    by (auto simp: readDERPConfig_def os_ReadFile_def os_IsNotExist_def
             split: node.splits sum.splits)
  then show ?thesis by (simp add: emit_def)
qed

lemma emitted_append: "trace w' = trace w @ evs \<Longrightarrow> emitted w w' = evs"
  by (simp add: emitted_def)

text \<open>
  Claim C7. Once the stage \<open>Start\<close> has bound the TCP listener, the next-protocol list
  of the TLS configuration contains the HTTP/2 identifier: an empty list has become
  HTTP/2 followed by \<open>http/1.1\<close>, a non-empty list without the identifier has it
  prepended to the unchanged entries, and a list with the identifier is unchanged.
\<close>

theorem Start_nextProtos:
  assumes "Start H d StartStateStart w = (res, d', w')"
      and "EvListenTCP \<in> set (emitted w w')"
  shows "http2_NextProtoTLS \<in> set (nextProtos (tlsConfig d')) \<and>
         (nextProtos (tlsConfig d) = [] \<longrightarrow>
            nextProtos (tlsConfig d') = [http2_NextProtoTLS, ''http/1.1'']) \<and>
         (nextProtos (tlsConfig d) \<noteq> [] \<and> http2_NextProtoTLS \<notin> set (nextProtos (tlsConfig d)) \<longrightarrow>
            nextProtos (tlsConfig d') = http2_NextProtoTLS # nextProtos (tlsConfig d)) \<and>
         (http2_NextProtoTLS \<in> set (nextProtos (tlsConfig d)) \<longrightarrow>
            nextProtos (tlsConfig d') = nextProtos (tlsConfig d))"
proof -
  obtain r0 w1 where rd: "readDERPConfig (keys H) (configPath d) w = (r0, w1)"
    by (cases "readDERPConfig (keys H) (configPath d) w") auto
  from readDERPConfig_trace [OF rd] obtain evs where
    tr: "trace w1 = trace w @ EvReadFile (configPath d) # evs" and wr: "\<forall>e \<in> set evs. isWrite e"
    by blast
  have nl: "EvListenTCP \<notin> set evs"
    using wr by auto
  show ?thesis
    using assms nl tr
    by (auto simp: Start_def rd emitted_def emit_def os_ReadFile_def Let_def common_Contains_def
          list_ex_iff
        split: sum.splits option.splits if_splits prod.splits node.splits)
qed

theorem Start_nextProtos_witness:
  "EvListenTCP \<in> set (emitted sample_world
      (snd (snd (Start sample_host sample_inbound StartStateStart sample_world)))) \<and>
   nextProtos (tlsConfig (fst (snd (Start sample_host sample_inbound StartStateStart sample_world))))
     = [''h2'', ''http/1.1'']"
proof -
  let ?run = "Start sample_host sample_inbound StartStateStart sample_world"
  have run: "?run = (fst ?run, fst (snd ?run), snd (snd ?run))"
    by simp
  have ev: "EvListenTCP \<in> set (emitted sample_world (snd (snd ?run)))"
    by code_simp
  have old: "nextProtos (tlsConfig sample_inbound) = [''http/1.1'']"
    by (simp add: sample_inbound_def)
  show ?thesis
    using Start_nextProtos [OF run ev] ev by (simp add: old http2_NextProtoTLS_def)
qed

lemma Start_mesh_key_reads:
  assumes "Start H d StartStateStart w = (res, d', w')"
  shows "(meshKey d \<noteq> [] \<longrightarrow>
            filter isReadFile (emitted w w') = [EvReadFile (configPath d)] \<and>
            (res = None \<longrightarrow> (\<exists>s. server d' = Some s \<and> server_meshKey s = meshKey d))) \<and>
         (filter isReadFile (emitted w w') \<noteq> [EvReadFile (configPath d)] \<longrightarrow>
            meshKey d = [] \<and> meshKeyPath d \<noteq> [] \<and>
            filter isReadFile (emitted w w') = [EvReadFile (configPath d), EvReadFile (meshKeyPath d)]) \<and>
         (meshKey d = [] \<and> meshKeyPath d \<noteq> [] \<and> res = None \<longrightarrow>
            (\<exists>s. server d' = Some s \<and> checkMeshKey (server_meshKey s) = None \<and>
                 files w' (meshKeyPath d) = Some (File (server_meshKey s)))) \<and>
         (meshKey d = [] \<and> meshKeyPath d = [] \<and> res = None \<longrightarrow>
            (\<exists>s. server d' = Some s \<and> \<not> HasMeshKey s))"
proof -
  obtain r0 w1 where rd: "readDERPConfig (keys H) (configPath d) w = (r0, w1)"
    by (cases "readDERPConfig (keys H) (configPath d) w") auto
  from readDERPConfig_trace [OF rd] obtain evs where
    tr: "trace w1 = trace w @ EvReadFile (configPath d) # evs" and wr: "\<forall>e \<in> set evs. isWrite e"
    by blast
  have nl: "filter isReadFile evs = []"
  proof -
    have "isWrite e \<Longrightarrow> \<not> isReadFile e" for e
      by (cases e) auto
    with wr show ?thesis by (auto simp: filter_empty_conv)
  qed
  show ?thesis
    using assms nl tr
    by (auto simp: Start_def rd emitted_def emit_def os_ReadFile_def Let_def
          SetMeshKey_def SetVerifyClientURL_def derp_NewServer_def HasMeshKey_def
        split: sum.splits option.splits if_splits prod.splits node.splits)
qed

lemma NewDERPInbound_fields:
  assumes "NewDERPInbound H options = Inr d"
  shows "meshKey d = MeshPSK options \<and> meshKeyPath d = MeshPSKFile options \<and>
         meshWith d = MeshWith options \<and> server d = None \<and> home d = [] \<and>
         stunListenPort d = STUNPort options \<and>
         (MeshPSK options \<noteq> [] \<longrightarrow> checkMeshKey (MeshPSK options) = None)"
  using assms
  by (auto simp: NewDERPInbound_def split: option.splits sum.splits if_splits)

text \<open>
  Claim C10. For an inbound constructed from its options and then started: when an
  inline mesh key is configured, the only file that the stage \<open>Start\<close> reads is the key
  store's file at the configuration path, whatever the mesh key path, and the key
  installed on the server is the inline key; a second file is read only when the inline
  key is empty and the mesh key path is not, it is the file at that path, and the key
  then installed is its content and has passed \<open>checkMeshKey\<close>.
\<close>

theorem inline_mesh_key_precedence:
  assumes "NewDERPInbound H options = Inr d"
      and "Start H d StartStateStart w = (res, d', w')"
  shows "(MeshPSK options \<noteq> [] \<longrightarrow>
            filter isReadFile (emitted w w') = [EvReadFile (configPath d)] \<and>
            (res = None \<longrightarrow> (\<exists>s. server d' = Some s \<and> server_meshKey s = MeshPSK options))) \<and>
         (filter isReadFile (emitted w w') \<noteq> [EvReadFile (configPath d)] \<longrightarrow>
            MeshPSK options = [] \<and> MeshPSKFile options \<noteq> [] \<and>
            filter isReadFile (emitted w w') =
              [EvReadFile (configPath d), EvReadFile (MeshPSKFile options)]) \<and>
         (MeshPSK options = [] \<and> MeshPSKFile options \<noteq> [] \<and> res = None \<longrightarrow>
            (\<exists>s. server d' = Some s \<and> checkMeshKey (server_meshKey s) = None \<and>
                 files w' (MeshPSKFile options) = Some (File (server_meshKey s))))"
proof -
  from NewDERPInbound_fields [OF assms(1)]
  have k: "meshKey d = MeshPSK options" and p: "meshKeyPath d = MeshPSKFile options"
    by simp_all
  from Start_mesh_key_reads [OF assms(2)] show ?thesis
    unfolding k p by blast
qed

theorem inline_mesh_key_precedence_witness:
  "filter isReadFile (emitted sample_world (snd (snd
      (Start sample_host sample_inbound StartStateStart sample_world))))
     = [EvReadFile ''/etc/derper/derper.key''] \<and>
   map_option server_meshKey (server (fst (snd
      (Start sample_host sample_inbound StartStateStart sample_world)))) = Some sample_meshKey \<and>
   files sample_world ''/etc/derper/mesh.key'' = Some (File ''0123456789ABCDEF'')"
proof -
  let ?opts = "sample_options\<lparr>MeshPSK := sample_meshKey, MeshPSKFile := ''/etc/derper/mesh.key'',
                  MeshWith := [sample_peer1, sample_peer2],
                  TLS := Some \<lparr>inbound_Enabled = True, inbound_ALPN = [''http/1.1'']\<rparr>\<rparr>"
  let ?run = "Start sample_host sample_inbound StartStateStart sample_world"
  have new: "NewDERPInbound sample_host ?opts = Inr sample_inbound"
    by code_simp
  have run: "?run = (fst ?run, fst (snd ?run), snd (snd ?run))"
    by simp
  have ok: "fst ?run = None"
    by code_simp
  have psk: "MeshPSK ?opts = sample_meshKey" "sample_meshKey \<noteq> []"
    by (simp_all add: sample_meshKey_def)
  have cp: "configPath sample_inbound = ''/etc/derper/derper.key''"
    by (simp add: sample_inbound_def)
  have f: "files sample_world ''/etc/derper/mesh.key'' = Some (File ''0123456789ABCDEF'')"
    by (simp add: sample_world_def)
  from inline_mesh_key_precedence [OF new run] psk ok cp f
  show ?thesis by auto
qed

section \<open>The home page\<close>

text \<open>
  Claim C6. The empty home value gives a handler that writes the default page with
  status 200, the value \<open>blank\<close> one that writes an empty body with status 200, a value
  that starts with \<open>http://\<close> or \<open>https://\<close> the redirect handler to that value with
  status 302. For any other value there is no handler, and the stage \<open>Start\<close> of an
  inbound with that home value returns an error: the error \<open>invalid home value\<close> once
  the key store and the mesh key have passed.
\<close>

theorem getHomeHandler_cases:
  "getHomeHandler [] =
     (Some (HandlerFunc \<lparr>respHeader = [(''Content-Type'', ''text/html; charset=utf-8'')],
                         respStatus = 200, respBody = homePage\<rparr>), True) \<and>
   getHomeHandler ''blank'' =
     (Some (HandlerFunc \<lparr>respHeader = [(''Content-Type'', ''text/html; charset=utf-8'')],
                         respStatus = 200, respBody = []\<rparr>), True) \<and>
   (strings_HasPrefix val ''http://'' \<or> strings_HasPrefix val ''https://'' \<longrightarrow>
      getHomeHandler val = (Some (RedirectHandler val 302), True)) \<and>
   (val \<noteq> [] \<and> val \<noteq> ''blank'' \<and>
    \<not> strings_HasPrefix val ''http://'' \<and> \<not> strings_HasPrefix val ''https://'' \<longrightarrow>
      getHomeHandler val = (None, False) \<and>
      (home d = val \<longrightarrow>
         (\<exists>e. fst (Start H d StartStateStart w) = Some e) \<and>
         (\<forall>cfg w1. readDERPConfig (keys H) (configPath d) w = (Inr cfg, w1) \<and> meshKey d \<noteq> [] \<longrightarrow>
            fst (Start H d StartStateStart w) = Some (New (''invalid home value: '' @ val)))))"
proof -
  have a: "getHomeHandler [] =
     (Some (HandlerFunc \<lparr>respHeader = [(''Content-Type'', ''text/html; charset=utf-8'')],
                         respStatus = 200, respBody = homePage\<rparr>), True)"
    by (simp add: getHomeHandler_def)
  have b: "getHomeHandler ''blank'' =
     (Some (HandlerFunc \<lparr>respHeader = [(''Content-Type'', ''text/html; charset=utf-8'')],
                         respStatus = 200, respBody = []\<rparr>), True)"
    by (simp add: getHomeHandler_def)
  have c: "strings_HasPrefix val ''http://'' \<or> strings_HasPrefix val ''https://'' \<longrightarrow>
      getHomeHandler val = (Some (RedirectHandler val 302), True)"
    by (auto simp: getHomeHandler_def strings_HasPrefix_def http_StatusFound_def)
  have d1: "getHomeHandler val = (None, False)"
    if "val \<noteq> [] \<and> val \<noteq> ''blank'' \<and>
        \<not> strings_HasPrefix val ''http://'' \<and> \<not> strings_HasPrefix val ''https://''"
    using that by (simp add: getHomeHandler_def)
  have d2: "\<exists>e. fst (Start H d StartStateStart w) = Some e"
    if "getHomeHandler (home d) = (None, False)"
    using that
    by (auto simp: Start_def Let_def split: prod.splits sum.splits option.splits)
  have d3: "fst (Start H d StartStateStart w) = Some (New (''invalid home value: '' @ home d))"
    if "getHomeHandler (home d) = (None, False)"
      and "readDERPConfig (keys H) (configPath d) w = (Inr cfg, w1)" and "meshKey d \<noteq> []"
    for cfg w1
    using that by (simp add: Start_def Let_def)
  show ?thesis
    using a b c d1 d2 d3 by blast
qed

theorem getHomeHandler_cases_witness:
  "getHomeHandler ''https://example.org/'' = (Some (RedirectHandler ''https://example.org/'' 302), True) \<and>
   getHomeHandler ''about:blank'' = (None, False) \<and>
   fst (Start sample_host (sample_inbound\<lparr>home := ''about:blank''\<rparr>) StartStateStart sample_world)
     = Some (New ''invalid home value: about:blank'')"
proof -
  let ?d = "sample_inbound\<lparr>home := ''about:blank''\<rparr>"
  have p: "strings_HasPrefix ''https://example.org/'' ''https://''"
    by (simp add: strings_HasPrefix_def)
  have n: "''about:blank'' \<noteq> [] \<and> ''about:blank'' \<noteq> ''blank'' \<and>
      \<not> strings_HasPrefix ''about:blank'' ''http://'' \<and> \<not> strings_HasPrefix ''about:blank'' ''https://''"
    by (simp add: strings_HasPrefix_def)
  have h: "home ?d = ''about:blank''"
    by simp
  let ?rd = "readDERPConfig (keys sample_host) (configPath ?d) sample_world"
  have rd: "?rd = (Inr \<lparr>PrivateKey = ''0123456789abcdefghijklmnopqrstuv''\<rparr>, snd ?rd)"
  proof -
    have "fst ?rd = Inr \<lparr>PrivateKey = ''0123456789abcdefghijklmnopqrstuv''\<rparr>"
      by code_simp
    then show ?thesis by (metis prod.collapse)
  qed
  have k: "meshKey ?d \<noteq> []"
    by (simp add: sample_inbound_def sample_meshKey_def)
  have r: "getHomeHandler ''https://example.org/'' = (Some (RedirectHandler ''https://example.org/'' 302), True)"
    using getHomeHandler_cases [of "''https://example.org/''"] p by blast
  have s: "getHomeHandler ''about:blank'' = (None, False) \<and>
      fst (Start sample_host ?d StartStateStart sample_world) = Some (New (''invalid home value: '' @ ''about:blank''))"
    using getHomeHandler_cases [of "''about:blank''" ?d sample_host sample_world] n h rd k by blast
  show ?thesis using r s by simp
qed

section \<open>Mesh keys and mesh peers\<close>

text \<open>The stage \<open>Start\<close> starts no watch loop.\<close>

lemma Start_no_watch_loop:
  assumes "Start H d StartStateStart w = (res, d', w')"
  shows "filter isWatchLoop (emitted w w') = []"
proof -
  obtain r0 w1 where rd: "readDERPConfig (keys H) (configPath d) w = (r0, w1)"
    by (cases "readDERPConfig (keys H) (configPath d) w") auto
  from readDERPConfig_trace [OF rd] obtain evs where
    tr: "trace w1 = trace w @ EvReadFile (configPath d) # evs" and wr: "\<forall>e \<in> set evs. isWrite e"
    by blast
  have nl: "filter isWatchLoop evs = []"
  proof -
    have "isWrite e \<Longrightarrow> \<not> isWatchLoop e" for e
      by (cases e) auto
    with wr show ?thesis by (auto simp: filter_empty_conv)
  qed
  show ?thesis
    using assms nl tr
    by (auto simp: Start_def rd emitted_def emit_def os_ReadFile_def Let_def
        split: sum.splits option.splits if_splits prod.splits node.splits)
qed

text \<open>The key store changes no file that exists.\<close>

lemma readDERPConfig_keeps_files:
  assumes "readDERPConfig K path w = (r, w1)" and "files w q = Some n"
  shows "files w1 q = Some n"
proof (cases "files w path")
  case None
  with assms(2) have ne: "q \<noteq> path"
    by auto
  from None assms(1) have "writeNewDERPConfig K path (emit (EvReadFile path) w) = (r, w1)"
    by (simp add: readDERPConfig_def os_ReadFile_def os_IsNotExist_def)
  then have "files w1 = files w \<or> (\<exists>c. files w1 = (files w)(path \<mapsto> File c))"
    by (auto simp: writeNewDERPConfig_def os_MkdirAll_def os_WriteFile_def Let_def emit_def
             split: option.splits sum.splits)
  with ne assms(2) show ?thesis
    by auto
next
  case (Some nd)
  with assms(1) have "files w1 = files w"
    by (auto simp: readDERPConfig_def os_ReadFile_def os_IsNotExist_def emit_def
             split: node.splits sum.splits)
  with assms(2) show ?thesis by simp
qed

lemma Start_bad_key_file:
  assumes "meshKey d = []" and "meshKeyPath d \<noteq> []"
      and "files w (meshKeyPath d) = Some (File content)"
      and "checkMeshKey content = Some e"
  shows "fst (Start H d StartStateStart w) =
           (case fst (readDERPConfig (keys H) (configPath d) w) of
              Inl err \<Rightarrow> Some err
            | Inr cfg \<Rightarrow> Some (Cause e ''invalid mesh_psk_path file'')) \<and>
         fst (snd (Start H d StartStateStart w)) = d"
proof -
  obtain r w1 where rd: "readDERPConfig (keys H) (configPath d) w = (r, w1)"
    by (cases "readDERPConfig (keys H) (configPath d) w") auto
  from readDERPConfig_keeps_files [OF rd assms(3)]
  have f: "files w1 (meshKeyPath d) = Some (File content)" .
  show ?thesis
  proof (cases r)
    case (Inl err)
    with rd show ?thesis by (simp add: Start_def)
  next
    case (Inr cfg)
    with rd assms(1,2,4) f show ?thesis
      by (simp add: Start_def Let_def os_ReadFile_def)
  qed
qed

lemma NewDERPInbound_bad_inline_key:
  assumes "MeshPSK options \<noteq> []" and "checkMeshKey (MeshPSK options) \<noteq> None"
  shows "\<exists>e. NewDERPInbound H options = Inl e"
  using assms
  by (auto simp: NewDERPInbound_def split: option.splits sum.splits)

text \<open>
  Claim C3, amended. A malformed mesh key is rejected before the stage \<open>PostStart\<close>: a
  malformed inline key makes the constructor fail; when no inline key is configured, a
  malformed file at the mesh key path makes the stage \<open>Start\<close> fail and leaves the
  inbound as it was, with the error of \<open>checkMeshKey\<close> once the key store has given its
  configuration and with the key store's error otherwise. The stage \<open>Start\<close> never
  starts a watch loop of a mesh peer. When mesh peers are configured and the server
  has no mesh key, the stage \<open>PostStart\<close> fails with \<open>missing mesh psk\<close> and does
  nothing else.
\<close>

theorem mesh_key_checked_before_PostStart:
  "(MeshPSK options \<noteq> [] \<and> checkMeshKey (MeshPSK options) \<noteq> None \<longrightarrow>
      (\<exists>e. NewDERPInbound H options = Inl e)) \<and>
   (meshKey d = [] \<and> meshKeyPath d \<noteq> [] \<and>
    files w (meshKeyPath d) = Some (File content) \<and> checkMeshKey content = Some e \<longrightarrow>
      fst (Start H d StartStateStart w) =
        (case fst (readDERPConfig (keys H) (configPath d) w) of
           Inl err \<Rightarrow> Some err
         | Inr cfg \<Rightarrow> Some (Cause e ''invalid mesh_psk_path file'')) \<and>
      fst (snd (Start H d StartStateStart w)) = d) \<and>
   filter isWatchLoop (emitted w (snd (snd (Start H d StartStateStart w)))) = [] \<and>
   (meshWith d \<noteq> [] \<and> server d = Some s \<and> \<not> HasMeshKey s \<longrightarrow>
      Start H d StartStatePostStart w = (Some (New ''missing mesh psk''), d, w))"
proof -
  have a: "MeshPSK options \<noteq> [] \<and> checkMeshKey (MeshPSK options) \<noteq> None \<longrightarrow>
      (\<exists>e. NewDERPInbound H options = Inl e)"
    using NewDERPInbound_bad_inline_key by blast
  have b: "meshKey d = [] \<and> meshKeyPath d \<noteq> [] \<and>
    files w (meshKeyPath d) = Some (File content) \<and> checkMeshKey content = Some e \<longrightarrow>
      fst (Start H d StartStateStart w) =
        (case fst (readDERPConfig (keys H) (configPath d) w) of
           Inl err \<Rightarrow> Some err
         | Inr cfg \<Rightarrow> Some (Cause e ''invalid mesh_psk_path file'')) \<and>
      fst (snd (Start H d StartStateStart w)) = d"
    using Start_bad_key_file by blast
  have c: "filter isWatchLoop (emitted w (snd (snd (Start H d StartStateStart w)))) = []"
    by (rule Start_no_watch_loop [of H d w "fst (Start H d StartStateStart w)"
          "fst (snd (Start H d StartStateStart w))"]) simp
  have e: "meshWith d \<noteq> [] \<and> server d = Some s \<and> \<not> HasMeshKey s \<longrightarrow>
      Start H d StartStatePostStart w = (Some (New ''missing mesh psk''), d, w)"
    by (simp add: Start_def)
  show ?thesis using a b c e by blast
qed

theorem mesh_key_checked_before_PostStart_witness:
  "NewDERPInbound sample_host (sample_options\<lparr>MeshPSK := ''0123456789ABCDEF''\<rparr>)
     = Inl (Cause (New ''key must contain exactly 64 hex digits'') ''invalid mesh_psk'') \<and>
   fst (Start sample_host (sample_inbound\<lparr>meshKey := []\<rparr>) StartStateStart sample_world)
     = Some (Cause (New ''key must contain exactly 64 hex digits'') ''invalid mesh_psk_path file'') \<and>
   fst (snd (Start sample_host (sample_inbound\<lparr>meshKey := []\<rparr>) StartStateStart sample_world))
     = sample_inbound\<lparr>meshKey := []\<rparr> \<and>
   Start sample_host (sample_inbound\<lparr>server := Some (derp_NewServer ''k'')\<rparr>) StartStatePostStart
      sample_world
     = (Some (New ''missing mesh psk''), sample_inbound\<lparr>server := Some (derp_NewServer ''k'')\<rparr>,
        sample_world)"
proof -
  let ?o = "sample_options\<lparr>MeshPSK := ''0123456789ABCDEF''\<rparr>"
  let ?d = "sample_inbound\<lparr>meshKey := []\<rparr>"
  let ?p = "sample_inbound\<lparr>server := Some (derp_NewServer ''k'')\<rparr>"
  let ?rd = "readDERPConfig (keys sample_host) (configPath sample_inbound) sample_world"
  let ?e = "New ''key must contain exactly 64 hex digits''"
  have bad: "checkMeshKey ''0123456789ABCDEF'' = Some ?e"
    by code_simp
  have o: "MeshPSK ?o \<noteq> [] \<and> checkMeshKey (MeshPSK ?o) \<noteq> None"
    using bad by simp
  from mesh_key_checked_before_PostStart [where options = ?o and H = sample_host] o
  have ex: "\<exists>e0. NewDERPInbound sample_host ?o = Inl e0"
    by blast
  have n: "NewDERPInbound sample_host ?o = Inl (Cause ?e ''invalid mesh_psk'')"
    by code_simp
  have d: "meshKey ?d = [] \<and> meshKeyPath ?d \<noteq> []"
    by (simp add: sample_inbound_def)
  have rd: "fst ?rd = Inr \<lparr>PrivateKey = ''0123456789abcdefghijklmnopqrstuv''\<rparr>"
    by code_simp
  have f: "files sample_world (meshKeyPath ?d) = Some (File ''0123456789ABCDEF'')"
    by (simp add: sample_world_def sample_inbound_def)
  from mesh_key_checked_before_PostStart [where d = ?d and H = sample_host and w = sample_world
      and content = "''0123456789ABCDEF''" and e = ?e]
    d f bad
  have st: "fst (Start sample_host ?d StartStateStart sample_world) =
      Some (Cause ?e ''invalid mesh_psk_path file'') \<and>
      fst (snd (Start sample_host ?d StartStateStart sample_world)) = ?d"
    by (simp add: rd)
  have p: "meshWith ?p \<noteq> [] \<and> server ?p = Some (derp_NewServer ''k'') \<and>
           \<not> HasMeshKey (derp_NewServer ''k'')"
    by (simp add: sample_inbound_def derp_NewServer_def HasMeshKey_def)
  from mesh_key_checked_before_PostStart [where d = ?p and H = sample_host and w = sample_world
      and s = "derp_NewServer ''k''"] p
  have ps: "Start sample_host ?p StartStatePostStart sample_world =
      (Some (New ''missing mesh psk''), ?p, sample_world)"
    by blast
  show ?thesis using ex n st ps by simp
qed

text \<open>
  Claim C3 as stated fails: with a mesh peer configured, a malformed key file makes the
  stage \<open>Start\<close> fail and a malformed inline key makes the construction fail, so the
  stage \<open>PostStart\<close> is not the step that fails.
\<close>

theorem malformed_key_fails_PostStart_counterexample:
  "MeshWith sample_options \<noteq> [] \<and>
   files sample_world ''/etc/derper/mesh.key'' = Some (File ''0123456789ABCDEF'') \<and>
   checkMeshKey ''0123456789ABCDEF'' \<noteq> None \<and>
   NewDERPInbound sample_host (sample_options\<lparr>MeshPSK := ''0123456789ABCDEF''\<rparr>)
     = Inl (Cause (New ''key must contain exactly 64 hex digits'') ''invalid mesh_psk'') \<and>
   fst (bringUp sample_host (sample_options\<lparr>MeshPSK := ''0123456789ABCDEF''\<rparr>) sample_world)
     = Some (Construction, Cause (New ''key must contain exactly 64 hex digits'') ''invalid mesh_psk'') \<and>
   fst (bringUp sample_host (sample_options\<lparr>MeshPSKFile := ''/etc/derper/mesh.key''\<rparr>) sample_world)
     = Some (StageStart, Cause (New ''key must contain exactly 64 hex digits'') ''invalid mesh_psk_path file'') \<and>
   filter isWatchLoop
     (trace (snd (bringUp sample_host (sample_options\<lparr>MeshPSKFile := ''/etc/derper/mesh.key''\<rparr>)
                    sample_world))) = []"
  by code_simp

lemma startMeshPeers_stops:
  assumes "\<forall>q \<in> set before. \<exists>c. newMeshClient H s q = Inr c"
      and "newMeshClient H s peer = Inl e"
  shows "startMeshPeers H s (before @ peer # after) w =
           (Some e, w\<lparr>trace := trace w @
              map (\<lambda>q. EvGoRunWatchConnectionLoop (projr (newMeshClient H s q))) before\<rparr>)"
  using assms
proof (induction before arbitrary: w)
  case Nil
  then show ?case by (simp add: startMeshWithHost_def)
next
  case (Cons q qs)
  then obtain c where c: "newMeshClient H s q = Inr c" by auto
  have step: "startMeshWithHost H s q w = (None, emit (EvGoRunWatchConnectionLoop c) w)"
    by (simp add: startMeshWithHost_def c)
  have "startMeshPeers H s ((q # qs) @ peer # after) w =
      startMeshPeers H s (qs @ peer # after) (emit (EvGoRunWatchConnectionLoop c) w)"
    by (simp add: step)
  also have "\<dots> = (Some e, (emit (EvGoRunWatchConnectionLoop c) w)\<lparr>trace :=
      trace (emit (EvGoRunWatchConnectionLoop c) w) @
        map (\<lambda>q. EvGoRunWatchConnectionLoop (projr (newMeshClient H s q))) qs\<rparr>)"
    using Cons.IH Cons.prems by simp
  finally show ?case by (simp add: emit_def c)
qed

lemma startMeshPeers_all:
  assumes "\<forall>q \<in> set peers. \<exists>c. newMeshClient H s q = Inr c"
  shows "startMeshPeers H s peers w =
           (None, w\<lparr>trace := trace w @
              map (\<lambda>q. EvGoRunWatchConnectionLoop (projr (newMeshClient H s q))) peers\<rparr>)"
  using assms
proof (induction peers arbitrary: w)
  case Nil
  show ?case by simp
next
  case (Cons q qs)
  then obtain c where c: "newMeshClient H s q = Inr c" by auto
  have step: "startMeshWithHost H s q w = (None, emit (EvGoRunWatchConnectionLoop c) w)"
    by (simp add: startMeshWithHost_def c)
  show ?case
    using Cons.IH [of "emit (EvGoRunWatchConnectionLoop c) w"] Cons.prems
    by (simp add: step emit_def c)
qed

text \<open>
  Claim C8, amended. When the client of one configured peer cannot be constructed (its
  dialer, its TLS configuration or the federation client fails), the stage \<open>PostStart\<close>
  returns that error at once: the watch loops of the peers listed before it have been
  started, in order, and no watch loop is started for it or for any peer listed after
  it.
\<close>

theorem mesh_peer_failure_aborts_PostStart:
  assumes "meshWith d = before @ peer # after"
      and "server d = Some s" and "HasMeshKey s"
      and "\<forall>q \<in> set before. \<exists>c. newMeshClient H s q = Inr c"
      and "newMeshClient H s peer = Inl e"
  shows "Start H d StartStatePostStart w =
           (Some e, d, w\<lparr>trace := trace w @
              map (\<lambda>q. EvGoRunWatchConnectionLoop (projr (newMeshClient H s q))) before\<rparr>)"
proof -
  have "startMeshPeers H s (meshWith d) w =
      (Some e, w\<lparr>trace := trace w @
         map (\<lambda>q. EvGoRunWatchConnectionLoop (projr (newMeshClient H s q))) before\<rparr>)"
    unfolding assms(1) by (rule startMeshPeers_stops [OF assms(4) assms(5)])
  then show ?thesis
    using assms(1-3) by (simp add: Start_def)
qed

theorem mesh_peer_failure_aborts_PostStart_witness:
  "Start sample_host
     (sample_inbound\<lparr>server := Some (SetMeshKey sample_meshKey (derp_NewServer ''k'')),
                     meshWith := [sample_peer2, sample_peer1, sample_peer2]\<rparr>)
     StartStatePostStart sample_world
   = (Some (Ext ''read certificate: no such file''),
      sample_inbound\<lparr>server := Some (SetMeshKey sample_meshKey (derp_NewServer ''k'')),
                     meshWith := [sample_peer2, sample_peer1, sample_peer2]\<rparr>,
      sample_world\<lparr>trace :=
        [EvGoRunWatchConnectionLoop
           \<lparr>client_privateKey = ''k'', client_url = ''https://derp2.example.org:443/derp'',
            client_TLSConfig = None, client_MeshKey = sample_meshKey,
            client_WatchConnectionChanges = True, client_dialer = []\<rparr>]\<rparr>)"
proof -
  let ?s = "SetMeshKey sample_meshKey (derp_NewServer ''k'')"
  let ?d = "sample_inbound\<lparr>server := Some ?s, meshWith := [sample_peer2, sample_peer1, sample_peer2]\<rparr>"
  let ?c = "\<lparr>client_privateKey = ''k'', client_url = ''https://derp2.example.org:443/derp'',
            client_TLSConfig = None, client_MeshKey = sample_meshKey,
            client_WatchConnectionChanges = True, client_dialer = []\<rparr>"
  have m: "meshWith ?d = [sample_peer2] @ sample_peer1 # [sample_peer2]"
    by simp
  have s: "server ?d = Some ?s"
    by simp
  have k: "HasMeshKey ?s"
    by (simp add: HasMeshKey_def SetMeshKey_def sample_meshKey_def)
  have c2: "newMeshClient sample_host ?s sample_peer2 = Inr ?c"
    by code_simp
  then have ok: "\<forall>q \<in> set [sample_peer2]. \<exists>c. newMeshClient sample_host ?s q = Inr c"
    by simp
  have c1: "newMeshClient sample_host ?s sample_peer1 = Inl (Ext ''read certificate: no such file'')"
    by code_simp
  have t: "trace sample_world = []"
    by (simp add: sample_world_def)
  show ?thesis
    using mesh_peer_failure_aborts_PostStart [OF m s k ok c1, of sample_world]
    by (simp add: c2 t)
qed

text \<open>
  Claim C8 as stated fails: the second of two peers can be constructed, but after the
  failure of the first the stage \<open>PostStart\<close> returns without starting its watch loop.
\<close>

theorem other_peers_unaffected_counterexample:
  "sample_peer2 \<in> set [sample_peer1, sample_peer2] \<and>
   newMeshClient sample_host (SetMeshKey sample_meshKey (derp_NewServer ''k'')) sample_peer2
     = Inr \<lparr>client_privateKey = ''k'', client_url = ''https://derp2.example.org:443/derp'',
            client_TLSConfig = None, client_MeshKey = sample_meshKey,
            client_WatchConnectionChanges = True, client_dialer = []\<rparr> \<and>
   Start sample_host
     (sample_inbound\<lparr>server := Some (SetMeshKey sample_meshKey (derp_NewServer ''k'')),
                     meshWith := [sample_peer1, sample_peer2]\<rparr>)
     StartStatePostStart sample_world
   = (Some (Ext ''read certificate: no such file''),
      sample_inbound\<lparr>server := Some (SetMeshKey sample_meshKey (derp_NewServer ''k'')),
                     meshWith := [sample_peer1, sample_peer2]\<rparr>,
      sample_world)"
proof -
  have a: "sample_peer2 \<in> set [sample_peer1, sample_peer2]"
    by simp
  have b: "newMeshClient sample_host (SetMeshKey sample_meshKey (derp_NewServer ''k'')) sample_peer2
     = Inr \<lparr>client_privateKey = ''k'', client_url = ''https://derp2.example.org:443/derp'',
            client_TLSConfig = None, client_MeshKey = sample_meshKey,
            client_WatchConnectionChanges = True, client_dialer = []\<rparr>"
    by code_simp
  have c1: "newMeshClient sample_host (SetMeshKey sample_meshKey (derp_NewServer ''k'')) sample_peer1
      = Inl (Ext ''read certificate: no such file'')"
    by code_simp
  have k: "HasMeshKey (SetMeshKey sample_meshKey (derp_NewServer ''k''))"
    by (simp add: HasMeshKey_def SetMeshKey_def sample_meshKey_def)
  have c: "Start sample_host
     (sample_inbound\<lparr>server := Some (SetMeshKey sample_meshKey (derp_NewServer ''k'')),
                     meshWith := [sample_peer1, sample_peer2]\<rparr>)
     StartStatePostStart sample_world
   = (Some (Ext ''read certificate: no such file''),
      sample_inbound\<lparr>server := Some (SetMeshKey sample_meshKey (derp_NewServer ''k'')),
                     meshWith := [sample_peer1, sample_peer2]\<rparr>,
      sample_world)"
    by (simp add: Start_def k startMeshWithHost_def c1)
  show ?thesis using a b c by blast
qed

section \<open>The STUN loop\<close>

lemma stunRound_None_iff: "stunRound S rd = None \<longleftrightarrow> closedOrCanceled S rd"
  by (simp add: stunRound_def closedOrCanceled_def Let_def split: udpRead.splits sum.splits)

text \<open>A run that meets a closed socket after \<open>m\<close> more rounds returns what those rounds did.\<close>

lemma loopSTUN_runs:
  assumes "stunRound S (reads (k + m)) = None"
      and "\<forall>j<m. stunRound S (reads (k + j)) \<noteq> None"
  shows "loopSTUN S reads k did =
           Some (did @ concat (map (\<lambda>j. the (stunRound S (reads j))) [k ..< k + m]))"
  using assms
proof (induction m arbitrary: k did)
  case 0
  then show ?case
    by (subst loopSTUN.simps) simp
next
  case (Suc m)
  from Suc.prems(2) have "stunRound S (reads (k + 0)) \<noteq> None"
    by blast
  then obtain evs where evs: "stunRound S (reads k) = Some evs"
    by auto
  have last: "stunRound S (reads (Suc k + m)) = None"
    using Suc.prems(1) by simp
  have before: "\<forall>j<m. stunRound S (reads (Suc k + j)) \<noteq> None"
  proof (intro allI impI)
    fix j assume "j < m"
    then have "Suc j < Suc m" by simp
    with Suc.prems(2) have "stunRound S (reads (k + Suc j)) \<noteq> None" by blast
    then show "stunRound S (reads (Suc k + j)) \<noteq> None" by simp
  qed
  have "loopSTUN S reads k did = loopSTUN S reads (Suc k) (did @ evs)"
    by (subst loopSTUN.simps) (simp add: evs)
  also have "\<dots> = Some ((did @ evs) @
      concat (map (\<lambda>j. the (stunRound S (reads j))) [Suc k ..< Suc k + m]))"
    by (rule Suc.IH [OF last before])
  also have "\<dots> = Some (did @ concat (map (\<lambda>j. the (stunRound S (reads j))) [k ..< k + Suc m]))"
  proof -
    have "[k ..< k + Suc m] = k # [Suc k ..< Suc k + m]"
      by (subst upt_rec) simp
    then show ?thesis
      by (simp only: list.map concat.simps evs option.sel append_assoc)
  qed
  finally show ?case .
qed

text \<open>A run that returns has met a closed socket.\<close>

lemma loopSTUN_returns:
  assumes ret: "loopSTUN S reads k did = Some out"
  shows "\<exists>j\<ge>k. stunRound S (reads j) = None"
proof (rule loopSTUN.raw_induct
    [where P = "\<lambda>S reads k did out. \<exists>j\<ge>k. stunRound S (reads j) = None", OF _ ret],
    goal_cases)
  case (1 loop S reads k did out)
  show ?case
  proof (cases "stunRound S (reads k)")
    case None
    then have "k \<le> k \<and> stunRound S (reads k) = None"
      by simp
    then show ?thesis ..
  next
    case (Some evs)
    have "loop S reads (Suc k) (did @ evs) = Some out"
      using 1(2) unfolding Some by (simp only: option.case)
    from 1(1) [OF this] obtain j where j: "Suc k \<le> j" and n: "stunRound S (reads j) = None"
      by blast
    from j have "k \<le> j"
      by simp
    with n have "k \<le> j \<and> stunRound S (reads j) = None"
      by simp
    then show ?thesis ..
  qed
qed

text \<open>
  Claim C9. The loop returns exactly when some read yields an error of a closed socket
  or a cancelled operation, and it has then done what its rounds before the first such
  read did. A round returns exactly on such an error; on any other read error it sleeps
  one second and goes on to the next read; on a datagram that is not STUN, or that does
  not parse as a binding request, it does nothing and goes on to the next read.
\<close>

theorem loopSTUN_terminates_iff:
  "((\<exists>out. loopSTUN S reads 0 [] = Some out) \<longleftrightarrow> (\<exists>n. closedOrCanceled S (reads n))) \<and>
   (closedOrCanceled S (reads n) \<and> (\<forall>j<n. \<not> closedOrCanceled S (reads j)) \<longrightarrow>
      loopSTUN S reads 0 [] = Some (concat (map (\<lambda>j. the (stunRound S (reads j))) [0 ..< n]))) \<and>
   (stunRound S rd = None \<longleftrightarrow> closedOrCanceled S rd) \<and>
   (\<not> IsClosedOrCanceled S err \<longrightarrow> stunRound S (ReadError err) = Some [Sleep time_Second]) \<and>
   (\<not> stun_Is S (take 65536 bytes) \<longrightarrow> stunRound S (Datagram bytes addr) = Some []) \<and>
   (stun_ParseBindingRequest S (take 65536 bytes) = Inl err \<longrightarrow>
      stunRound S (Datagram bytes addr) = Some [])"
proof -
  have run: "loopSTUN S reads 0 [] = Some (concat (map (\<lambda>j. the (stunRound S (reads j))) [0 ..< m]))"
    if "closedOrCanceled S (reads m)" and "\<forall>j<m. \<not> closedOrCanceled S (reads j)" for m
    using loopSTUN_runs [of S reads 0 m "[]"] that by (simp add: stunRound_None_iff)
  have "\<exists>out. loopSTUN S reads 0 [] = Some out" if "\<exists>n. closedOrCanceled S (reads n)"
  proof -
    define m where "m = (LEAST n. closedOrCanceled S (reads n))"
    from that have "closedOrCanceled S (reads m)"
      unfolding m_def by (auto intro: LeastI)
    moreover have "\<forall>j<m. \<not> closedOrCanceled S (reads j)"
      unfolding m_def by (auto dest: not_less_Least)
    ultimately show ?thesis
      using run by blast
  qed
  moreover have "\<exists>n. closedOrCanceled S (reads n)" if "\<exists>out. loopSTUN S reads 0 [] = Some out"
    using that loopSTUN_returns [of S reads 0 "[]"] by (auto simp: stunRound_None_iff)
  ultimately have iff: "(\<exists>out. loopSTUN S reads 0 [] = Some out) \<longleftrightarrow> (\<exists>n. closedOrCanceled S (reads n))"
    by blast
  have r1: "\<not> IsClosedOrCanceled S err \<longrightarrow> stunRound S (ReadError err) = Some [Sleep time_Second]"
    by (simp add: stunRound_def)
  have r2: "\<not> stun_Is S (take 65536 bytes) \<longrightarrow> stunRound S (Datagram bytes addr) = Some []"
    by (simp add: stunRound_def)
  have r3: "stun_ParseBindingRequest S (take 65536 bytes) = Inl err \<longrightarrow>
      stunRound S (Datagram bytes addr) = Some []"
    by (simp add: stunRound_def Let_def)
  have r0: "stunRound S rd = None \<longleftrightarrow> closedOrCanceled S rd"
    by (rule stunRound_None_iff)
  have r: "closedOrCanceled S (reads n) \<and> (\<forall>j<n. \<not> closedOrCanceled S (reads j)) \<longrightarrow>
      loopSTUN S reads 0 [] = Some (concat (map (\<lambda>j. the (stunRound S (reads j))) [0 ..< n]))"
    using run by blast
  show ?thesis
    by (intro conjI iff r r0 r1 r2 r3)
qed

theorem loopSTUN_terminates_iff_witness:
  "loopSTUN sample_stun sample_reads 0 [] =
     Some [Sleep 1000000000, WriteToUDPAddrPort ''Rabc@192.0.2.2:6000'' ''192.0.2.2:6000'']"
proof -
  have c: "closedOrCanceled sample_stun (sample_reads 4)"
    by (simp add: closedOrCanceled_def sample_reads_def sample_stun_def)
  have "\<forall>j \<in> set [0 ..< 4]. \<not> closedOrCanceled sample_stun (sample_reads j)"
    by code_simp
  then have n: "\<forall>j<4. \<not> closedOrCanceled sample_stun (sample_reads j)"
    by simp
  have v: "concat (map (\<lambda>j. the (stunRound sample_stun (sample_reads j))) [0 ..< 4]) =
      [Sleep 1000000000, WriteToUDPAddrPort ''Rabc@192.0.2.2:6000'' ''192.0.2.2:6000'']"
  proof -
    have e: "[0 ..< 4] = [0, 1, 2, 3 :: nat]"
      by (simp add: upt_conv_Cons)
    show ?thesis
      unfolding e by (simp add: stunRound_def sample_reads_def sample_stun_def time_Second_def)
  qed
  have "loopSTUN sample_stun sample_reads 0 [] =
      Some (concat (map (\<lambda>j. the (stunRound sample_stun (sample_reads j))) [0 ..< 4]))"
    by (rule loopSTUN_terminates_iff [where S = sample_stun and reads = sample_reads and n = 4,
          THEN conjunct2, THEN conjunct1, rule_format]) (intro conjI c n)
  then show ?thesis by (simp only: v)
qed

end
